theory Spec2Isabelle
  imports Main "HOL-Library.Word"
begin

unbundle bit_operations_syntax

section \<open>The build-time check of the MAPI constants (testbuild.cpp)\<close>

text \<open>
  \<^verbatim>\<open>testbuild.cpp\<close> includes \<^verbatim>\<open>MAPIConstants.h\<close> and \<^verbatim>\<open><cstdint>\<close> and
  then holds six \<^verbatim>\<open>static_assert\<close> declarations, nothing else. The header is not part
  of the sources at hand, so the values it gives to the six names are a parameter of
  the model; the expressions, their literals and their casts are those of the file.
\<close>

subsection \<open>Integer values\<close>

text \<open>
  Integer types by width and signedness. Under the Windows data model \<^verbatim>\<open>int\<close> and
  \<^verbatim>\<open>long\<close> are both 32 bits wide and \<^verbatim>\<open>long long\<close> is 64 bits wide; width and
  signedness are all that conversions and comparisons depend on there. Narrower
  types (and unscoped enumerations) are promoted before any operator sees them, so a
  constant is held at its promoted type.
\<close>

datatype ctype = S32 | U32 | S64 | U64

datatype cval =
    Int32 "32 word"
  | UInt32 "32 word"
  | Int64 "64 word"
  | UInt64 "64 word"

fun type_of :: "cval \<Rightarrow> ctype" where
  "type_of (Int32 w) = S32"
| "type_of (UInt32 w) = U32"
| "type_of (Int64 w) = S64"
| "type_of (UInt64 w) = U64"

text \<open>The number a value stands for.\<close>

fun value_of :: "cval \<Rightarrow> int" where
  "value_of (Int32 w) = sint w"
| "value_of (UInt32 w) = uint w"
| "value_of (Int64 w) = sint w"
| "value_of (UInt64 w) = uint w"

text \<open>Integral conversion: the number is reduced modulo two to the width of the target.\<close>

fun convert :: "ctype \<Rightarrow> int \<Rightarrow> cval" where
  "convert S32 n = Int32 (word_of_int n)"
| "convert U32 n = UInt32 (word_of_int n)"
| "convert S64 n = Int64 (word_of_int n)"
| "convert U64 n = UInt64 (word_of_int n)"

definition cast :: "ctype \<Rightarrow> cval \<Rightarrow> cval" where
  "cast t v = convert t (value_of v)"

text \<open>
  The usual arithmetic conversions: the common type of the two operands of a binary
  operator. A signed 32-bit operand yields to an unsigned 32-bit one; a 64-bit signed
  type holds every 32-bit value, so it wins over both 32-bit types; unsigned 64 bits
  wins over everything.
\<close>

fun common_type :: "ctype \<Rightarrow> ctype \<Rightarrow> ctype" where
  "common_type U64 t = U64"
| "common_type t U64 = U64"
| "common_type S64 t = S64"
| "common_type t S64 = S64"
| "common_type U32 t = U32"
| "common_type t U32 = U32"
| "common_type S32 S32 = S32"

text \<open>The operator \<^verbatim>\<open>==\<close>: both operands go to the common type and are compared there.\<close>

definition c_equal :: "cval \<Rightarrow> cval \<Rightarrow> bool" where
  "c_equal a b =
     (let t = common_type (type_of a) (type_of b) in cast t a = cast t b)"

text \<open>
  Unary minus, in the (promoted) type of its operand. It wraps around for an unsigned
  operand; negating the least signed value is not a constant expression, and the
  function wraps around there too. The file negates the literal 1 only.
\<close>

definition c_negate :: "cval \<Rightarrow> cval" where
  "c_negate v = convert (type_of v) (- value_of v)"

text \<open>
  The type of an integer literal without suffix is the first type of its list that
  holds the number: \<^verbatim>\<open>int\<close>, \<^verbatim>\<open>long\<close>, \<^verbatim>\<open>long long\<close> for a decimal literal, with the
  unsigned types in between for a hexadecimal or octal one. A literal that fits none
  of them is ill-formed; the file has none, and the function reduces such a number
  modulo the width of the last type.
\<close>

datatype radix = Decimal | Hexadecimal | Octal

fun literal :: "radix \<Rightarrow> nat \<Rightarrow> cval" where
  "literal Decimal n =
     (if n < 2 ^ 31 then Int32 (of_nat n) else Int64 (of_nat n))"
| "literal r n =
     (if n < 2 ^ 31 then Int32 (of_nat n)
      else if n < 2 ^ 32 then UInt32 (of_nat n)
      else if n < 2 ^ 63 then Int64 (of_nat n)
      else UInt64 (of_nat n))"

subsection \<open>Expressions and declarations\<close>

text \<open>The six names of \<^verbatim>\<open>MAPIConstants.h\<close> that the file mentions.\<close>

datatype mapi_const =
    MAPI_E_NOT_FOUND
  | PT_MV_BINARY
  | PR_CONVERSATION_TOPIC_A
  | BOOKMARK_BEGINNING
  | TABLE_SORT_CATEG_MAX
  | PRIO_NONURGENT

text \<open>What the header gives to each of them.\<close>

type_synonym header = "mapi_const \<Rightarrow> cval"

text \<open>The two type names the file casts to.\<close>

datatype type_name = HRESULT | int32_t

text \<open>
  Modelled from the spec: the typedef \<^verbatim>\<open>HRESULT\<close> comes from the headers that are not
  among the sources; the glossary gives it as a signed 32-bit status code.
  \<^verbatim>\<open>std::int32_t\<close> is the signed 32-bit type of \<^verbatim>\<open><cstdint>\<close>.
\<close>

fun resolve :: "type_name \<Rightarrow> ctype" where
  "resolve HRESULT = S32"
| "resolve int32_t = S32"

datatype expr =
    Name mapi_const
  | Literal radix nat
  | Paren expr
  | Minus expr
  | C_cast type_name expr
  | Static_cast type_name expr
  | Eq expr expr

text \<open>
  Constant evaluation. A comparison gives a \<^verbatim>\<open>bool\<close>, held here at the type it is
  promoted to, as 1 or 0.
\<close>

fun eval :: "header \<Rightarrow> expr \<Rightarrow> cval" where
  "eval h (Name c) = h c"
| "eval h (Literal r n) = literal r n"
| "eval h (Paren e) = eval h e"
| "eval h (Minus e) = c_negate (eval h e)"
| "eval h (C_cast t e) = cast (resolve t) (eval h e)"
| "eval h (Static_cast t e) = cast (resolve t) (eval h e)"
| "eval h (Eq a b) = (if c_equal (eval h a) (eval h b) then Int32 1 else Int32 0)"

text \<open>Contextual conversion to \<^verbatim>\<open>bool\<close>: anything but zero is true.\<close>

definition truth :: "cval \<Rightarrow> bool" where
  "truth v = (value_of v \<noteq> 0)"

text \<open>
  Top-level items of a translation unit: the two forms of \<^verbatim>\<open>#include\<close>, a
  \<^verbatim>\<open>static_assert\<close>, and a function definition, the one item that would leave code to
  run.
\<close>

datatype toplevel =
    Include_quoted string
  | Include_system string
  | Static_assert expr
  | Function_definition string

subsection \<open>The file\<close>

text \<open>The six asserted expressions, lines 8 to 13, each named after the constant it checks.\<close>

definition check_MAPI_E_NOT_FOUND :: expr where
  "check_MAPI_E_NOT_FOUND =
     Eq (Name MAPI_E_NOT_FOUND) (Paren (C_cast HRESULT (Literal Hexadecimal 0x8004010F)))"

definition check_PT_MV_BINARY :: expr where
  "check_PT_MV_BINARY = Eq (Name PT_MV_BINARY) (Literal Hexadecimal 0x1102)"

definition check_PR_CONVERSATION_TOPIC_A :: expr where
  "check_PR_CONVERSATION_TOPIC_A =
     Eq (Name PR_CONVERSATION_TOPIC_A) (Paren (Literal Hexadecimal 0x0070001E))"

text \<open>The literal \<^verbatim>\<open>0\<close> is, by the grammar, an octal literal.\<close>

definition check_BOOKMARK_BEGINNING :: expr where
  "check_BOOKMARK_BEGINNING = Eq (Name BOOKMARK_BEGINNING) (Literal Octal 0)"

definition check_TABLE_SORT_CATEG_MAX :: expr where
  "check_TABLE_SORT_CATEG_MAX = Eq (Name TABLE_SORT_CATEG_MAX) (Literal Decimal 4)"

definition check_PRIO_NONURGENT :: expr where
  "check_PRIO_NONURGENT =
     Eq (Static_cast int32_t (Name PRIO_NONURGENT)) (Minus (Literal Decimal 1))"

definition testbuild :: "toplevel list" where
  "testbuild =
     [Include_quoted ''MAPIConstants.h'',
      Include_system ''cstdint'',
      Static_assert check_MAPI_E_NOT_FOUND,
      Static_assert check_PT_MV_BINARY,
      Static_assert check_PR_CONVERSATION_TOPIC_A,
      Static_assert check_BOOKMARK_BEGINNING,
      Static_assert check_TABLE_SORT_CATEG_MAX,
      Static_assert check_PRIO_NONURGENT]"

subsection \<open>Building\<close>

text \<open>
  A \<^verbatim>\<open>static_assert\<close> whose expression is false gives a diagnostic that carries the
  expression; no other item of the model can fail.
\<close>

fun diagnose :: "header \<Rightarrow> toplevel \<Rightarrow> expr list" where
  "diagnose h (Static_assert e) = (if truth (eval h e) then [] else [e])"
| "diagnose h d = []"

definition diagnostics :: "header \<Rightarrow> toplevel list \<Rightarrow> expr list" where
  "diagnostics h tu = concat (map (diagnose h) tu)"

datatype build_result = Build_ok | Build_failed "expr list"

definition compile :: "header \<Rightarrow> toplevel list \<Rightarrow> build_result" where
  "compile h tu = (case diagnostics h tu of [] \<Rightarrow> Build_ok | d # ds \<Rightarrow> Build_failed (d # ds))"

text \<open>The asserted expressions of a translation unit, and what of it is left at run time.\<close>

fun asserted :: "toplevel \<Rightarrow> expr list" where
  "asserted (Static_assert e) = [e]"
| "asserted d = []"

definition static_asserts :: "toplevel list \<Rightarrow> expr list" where
  "static_asserts tu = concat (map asserted tu)"

fun is_runtime :: "toplevel \<Rightarrow> bool" where
  "is_runtime (Function_definition f) = True"
| "is_runtime d = False"

definition runtime_items :: "toplevel list \<Rightarrow> toplevel list" where
  "runtime_items tu = filter is_runtime tu"

fun is_include :: "toplevel \<Rightarrow> bool" where
  "is_include (Include_quoted f) = True"
| "is_include (Include_system f) = True"
| "is_include d = False"


subsection \<open>What the file checks\<close>

text \<open>The names an expression mentions, left to right.\<close>

fun names :: "expr \<Rightarrow> mapi_const list" where
  "names (Name c) = [c]"
| "names (Literal r n) = []"
| "names (Paren e) = names e"
| "names (Minus e) = names e"
| "names (C_cast t e) = names e"
| "names (Static_cast t e) = names e"
| "names (Eq a b) = names a @ names b"

definition checked_constants :: "toplevel list \<Rightarrow> mapi_const list" where
  "checked_constants tu = concat (map names (static_asserts tu))"

text \<open>
  The two sides of an asserted comparison: the side under test, and the number the
  other side stands for.
\<close>

fun subject :: "expr \<Rightarrow> expr option" where
  "subject (Eq a b) = Some a"
| "subject e = None"

fun expected :: "header \<Rightarrow> expr \<Rightarrow> int option" where
  "expected h (Eq a b) = Some (value_of (eval h b))"
| "expected h e = None"

text \<open>
  The families of MAPI constants, told apart by the prefix of the name:
  \<^verbatim>\<open>MAPI_E_\<close> is an error code, \<^verbatim>\<open>PT_\<close> a property type, \<^verbatim>\<open>PR_\<close> a property
  tag, \<^verbatim>\<open>BOOKMARK_\<close> a table bookmark, \<^verbatim>\<open>TABLE_SORT_\<close> a table-sort constant and
  \<^verbatim>\<open>PRIO_\<close> a message priority.
\<close>

datatype const_kind =
    Error_code
  | Property_type
  | Property_tag
  | Bookmark
  | Table_sort_category
  | Priority

fun kind_of :: "mapi_const \<Rightarrow> const_kind" where
  "kind_of MAPI_E_NOT_FOUND = Error_code"
| "kind_of PT_MV_BINARY = Property_type"
| "kind_of PR_CONVERSATION_TOPIC_A = Property_tag"
| "kind_of BOOKMARK_BEGINNING = Bookmark"
| "kind_of TABLE_SORT_CATEG_MAX = Table_sort_category"
| "kind_of PRIO_NONURGENT = Priority"

definition count_kind :: "const_kind \<Rightarrow> toplevel list \<Rightarrow> nat" where
  "count_kind k tu = length (filter (\<lambda>c. kind_of c = k) (checked_constants tu))"

text \<open>
  The shape \<^verbatim>\<open>C == V\<close>, read up to parentheses and type conversions: the left side is
  one name, possibly under casts; the right side is one literal, possibly under
  casts and a sign, and mentions no name.
\<close>

fun is_named_constant :: "expr \<Rightarrow> bool" where
  "is_named_constant (Name c) = True"
| "is_named_constant (Paren e) = is_named_constant e"
| "is_named_constant (C_cast t e) = is_named_constant e"
| "is_named_constant (Static_cast t e) = is_named_constant e"
| "is_named_constant e = False"

fun is_literal_value :: "expr \<Rightarrow> bool" where
  "is_literal_value (Literal r n) = True"
| "is_literal_value (Paren e) = is_literal_value e"
| "is_literal_value (Minus e) = is_literal_value e"
| "is_literal_value (C_cast t e) = is_literal_value e"
| "is_literal_value (Static_cast t e) = is_literal_value e"
| "is_literal_value e = False"

fun is_check :: "expr \<Rightarrow> bool" where
  "is_check (Eq a b) = (is_named_constant a \<and> is_literal_value b)"
| "is_check e = False"

text \<open>For each assertion in turn: the families of the names it mentions, and the expected number.\<close>

definition inventory :: "header \<Rightarrow> toplevel list \<Rightarrow> (const_kind list \<times> int option) list" where
  "inventory h tu = map (\<lambda>e. (map kind_of (names e), expected h e)) (static_asserts tu)"

subsection \<open>A header to build against\<close>

text \<open>
  One possible content of the header, for running the model: the error code as an
  \<^verbatim>\<open>HRESULT\<close>, the priority as a \<^verbatim>\<open>long\<close>, the other four as unsigned 32-bit
  values.
\<close>

definition sample_header :: header where
  "sample_header c =
     (case c of
        MAPI_E_NOT_FOUND \<Rightarrow> Int32 0x8004010F
      | PT_MV_BINARY \<Rightarrow> UInt32 0x1102
      | PR_CONVERSATION_TOPIC_A \<Rightarrow> UInt32 0x0070001E
      | BOOKMARK_BEGINNING \<Rightarrow> UInt32 0
      | TABLE_SORT_CATEG_MAX \<Rightarrow> UInt32 4
      | PRIO_NONURGENT \<Rightarrow> Int32 (- 1))"

section \<open>Conversions and comparison\<close>

lemma convert_value_of: "convert (type_of v) (value_of v) = v"
  by (cases v) simp_all

lemma cast_same: "cast (type_of v) v = v"
  by (simp add: cast_def convert_value_of)

lemma common_type_S32: "common_type t S32 = t"
  by (cases t) simp_all

lemma cast_S32_Int32: "cast S32 (Int32 w) = Int32 w"
  by (simp add: cast_def)

text \<open>Against a signed 32-bit operand the comparison is made in the type of the other one.\<close>

lemma c_equal_Int32: "c_equal a (Int32 w) \<longleftrightarrow> a = cast (type_of a) (Int32 w)"
  by (simp add: c_equal_def common_type_S32 cast_same)

lemma sint32_range: "- (2 ^ 31) \<le> sint (w :: 32 word)" "sint (w :: 32 word) < 2 ^ 31"
  using sint_ge [of w] sint_lt [of w] by simp_all

lemma narrow_sint: "(word_of_int (sint (word_of_int n :: 64 word)) :: 32 word) = word_of_int n"
  by (simp add: word_of_int_eq_iff sint_sbintrunc' take_bit_signed_take_bit)

lemma narrow_uint: "(word_of_int (uint (word_of_int n :: 64 word)) :: 32 word) = word_of_int n"
  by (simp add: word_of_int_eq_iff uint_word_of_int_eq)

text \<open>Going through any of the four types loses nothing of the low 32 bits.\<close>

lemma cast_S32_cast: "cast S32 (cast t v) = cast S32 v"
proof (cases t)
  case S64
  then show ?thesis by (simp add: cast_def narrow_sint del: of_int_sint)
next
  case U64
  then show ?thesis by (simp add: cast_def narrow_uint del: of_int_uint)
qed (simp_all add: cast_def)

lemma c_equal_Int32_low:
  assumes "c_equal a (Int32 w)"
  shows "cast S32 a = Int32 w"
proof -
  from assms have "a = cast (type_of a) (Int32 w)"
    by (simp add: c_equal_Int32)
  then have "cast S32 a = cast S32 (cast (type_of a) (Int32 w))"
    by simp
  also have "\<dots> = cast S32 (Int32 w)"
    by (rule cast_S32_cast)
  also have "\<dots> = Int32 w"
    by (simp add: cast_def)
  finally show ?thesis .
qed

text \<open>A non-negative signed 32-bit number is the same number in each of the four types.\<close>

lemma value_of_cast_nonneg:
  assumes "0 \<le> sint w"
  shows "value_of (cast t (Int32 w)) = sint w"
proof -
  have r: "sint w < 2 ^ 31" by (rule sint32_range)
  show ?thesis
  proof (cases t)
    case S32
    then show ?thesis by (simp add: cast_def)
  next
    case U32
    have "uint w = take_bit 32 (sint w)" by (simp add: uint_sint)
    also have "\<dots> = sint w" using assms r by (simp add: take_bit_int_eq_self)
    finally show ?thesis using U32 by (simp add: cast_def)
  next
    case S64
    have "sint (word_of_int (sint w) :: 64 word) = signed_take_bit 63 (sint w)"
      by (simp add: sint_sbintrunc' del: of_int_sint)
    also have "\<dots> = sint w" using assms r by (simp add: signed_take_bit_int_eq_self)
    finally show ?thesis using S64 by (simp add: cast_def del: of_int_sint)
  next
    case U64
    have "uint (word_of_int (sint w) :: 64 word) = take_bit 64 (sint w)"
      by (simp add: uint_word_of_int_eq del: of_int_sint)
    also have "\<dots> = sint w" using assms r by (simp add: take_bit_int_eq_self)
    finally show ?thesis using U64 by (simp add: cast_def del: of_int_sint)
  qed
qed

lemma c_equal_Int32_nonneg:
  assumes "0 \<le> sint w"
  shows "c_equal a (Int32 w) \<longleftrightarrow> value_of a = sint w"
proof
  assume "c_equal a (Int32 w)"
  then have "a = cast (type_of a) (Int32 w)"
    by (simp add: c_equal_Int32)
  then have "value_of a = value_of (cast (type_of a) (Int32 w))"
    by simp
  then show "value_of a = sint w"
    using assms by (simp add: value_of_cast_nonneg)
next
  assume "value_of a = sint w"
  then have "convert (type_of a) (value_of a) = convert (type_of a) (sint w)"
    by simp
  then show "c_equal a (Int32 w)"
    by (simp add: c_equal_Int32 convert_value_of cast_def)
qed

section \<open>The six assertions, one by one\<close>

lemma holds_MAPI_E_NOT_FOUND:
  "truth (eval h check_MAPI_E_NOT_FOUND) \<longleftrightarrow> c_equal (h MAPI_E_NOT_FOUND) (Int32 0x8004010F)"
  by (simp add: check_MAPI_E_NOT_FOUND_def truth_def cast_def)

lemma holds_PT_MV_BINARY:
  "truth (eval h check_PT_MV_BINARY) \<longleftrightarrow> c_equal (h PT_MV_BINARY) (Int32 0x1102)"
  by (simp add: check_PT_MV_BINARY_def truth_def)

lemma holds_PR_CONVERSATION_TOPIC_A:
  "truth (eval h check_PR_CONVERSATION_TOPIC_A) \<longleftrightarrow>
     c_equal (h PR_CONVERSATION_TOPIC_A) (Int32 0x0070001E)"
  by (simp add: check_PR_CONVERSATION_TOPIC_A_def truth_def)

lemma holds_BOOKMARK_BEGINNING:
  "truth (eval h check_BOOKMARK_BEGINNING) \<longleftrightarrow> c_equal (h BOOKMARK_BEGINNING) (Int32 0)"
  by (simp add: check_BOOKMARK_BEGINNING_def truth_def)

lemma holds_TABLE_SORT_CATEG_MAX:
  "truth (eval h check_TABLE_SORT_CATEG_MAX) \<longleftrightarrow> c_equal (h TABLE_SORT_CATEG_MAX) (Int32 4)"
  by (simp add: check_TABLE_SORT_CATEG_MAX_def truth_def)

lemma holds_PRIO_NONURGENT:
  "truth (eval h check_PRIO_NONURGENT) \<longleftrightarrow>
     c_equal (cast S32 (h PRIO_NONURGENT)) (Int32 (- 1))"
  by (simp add: check_PRIO_NONURGENT_def truth_def c_negate_def)

lemmas holds_simps =
  holds_MAPI_E_NOT_FOUND holds_PT_MV_BINARY holds_PR_CONVERSATION_TOPIC_A
  holds_BOOKMARK_BEGINNING holds_TABLE_SORT_CATEG_MAX holds_PRIO_NONURGENT

lemma static_asserts_testbuild:
  "static_asserts testbuild =
     [check_MAPI_E_NOT_FOUND, check_PT_MV_BINARY, check_PR_CONVERSATION_TOPIC_A,
      check_BOOKMARK_BEGINNING, check_TABLE_SORT_CATEG_MAX, check_PRIO_NONURGENT]"
  by (simp add: static_asserts_def testbuild_def)

lemma diagnose_asserted: "diagnose h d = filter (\<lambda>e. \<not> truth (eval h e)) (asserted d)"
  by (cases d) simp_all

lemma diagnostics_filter:
  "diagnostics h tu = filter (\<lambda>e. \<not> truth (eval h e)) (static_asserts tu)"
  by (induction tu) (simp_all add: diagnostics_def static_asserts_def diagnose_asserted)

lemma compile_ok_iff_no_diagnostics: "compile h tu = Build_ok \<longleftrightarrow> diagnostics h tu = []"
  by (simp add: compile_def split: list.splits)

lemma compile_failed: "diagnostics h tu \<noteq> [] \<Longrightarrow> compile h tu = Build_failed (diagnostics h tu)"
  by (simp add: compile_def split: list.splits)

lemma compile_testbuild_ok_iff:
  "compile h testbuild = Build_ok \<longleftrightarrow>
     c_equal (h MAPI_E_NOT_FOUND) (Int32 0x8004010F) \<and>
     c_equal (h PT_MV_BINARY) (Int32 0x1102) \<and>
     c_equal (h PR_CONVERSATION_TOPIC_A) (Int32 0x0070001E) \<and>
     c_equal (h BOOKMARK_BEGINNING) (Int32 0) \<and>
     c_equal (h TABLE_SORT_CATEG_MAX) (Int32 4) \<and>
     c_equal (cast S32 (h PRIO_NONURGENT)) (Int32 (- 1))"
  by (simp add: compile_ok_iff_no_diagnostics diagnostics_filter static_asserts_testbuild
      filter_empty_conv holds_simps)

lemma sample_header_builds: "compile sample_header testbuild = Build_ok"
  by (simp add: compile_testbuild_ok_iff sample_header_def c_equal_def cast_def)


section \<open>Outcome of the build\<close>

text \<open>
  C1. The build of \<^verbatim>\<open>testbuild.cpp\<close> succeeds exactly when each of the six comparisons
  holds between what the header gives to the name and the value written in the file,
  compared as \<^verbatim>\<open>==\<close> compares. Otherwise the build fails, and the failure carries
  the asserted expressions that are false. The file leaves nothing to run: it has no
  item besides the includes and the assertions.
\<close>

theorem build_succeeds_iff_six_equalities:
  "(compile h testbuild = Build_ok \<longleftrightarrow>
      c_equal (h MAPI_E_NOT_FOUND) (Int32 0x8004010F) \<and>
      c_equal (h PT_MV_BINARY) (Int32 0x1102) \<and>
      c_equal (h PR_CONVERSATION_TOPIC_A) (Int32 0x0070001E) \<and>
      c_equal (h BOOKMARK_BEGINNING) (Int32 0) \<and>
      c_equal (h TABLE_SORT_CATEG_MAX) (Int32 4) \<and>
      c_equal (cast S32 (h PRIO_NONURGENT)) (Int32 (- 1)))
   \<and> (compile h testbuild = Build_ok \<or>
        filter (\<lambda>e. \<not> truth (eval h e)) (static_asserts testbuild) \<noteq> [] \<and>
        compile h testbuild =
          Build_failed (filter (\<lambda>e. \<not> truth (eval h e)) (static_asserts testbuild)))
   \<and> runtime_items testbuild = []"
proof (intro conjI)
  show "compile h testbuild = Build_ok \<longleftrightarrow>
      c_equal (h MAPI_E_NOT_FOUND) (Int32 0x8004010F) \<and>
      c_equal (h PT_MV_BINARY) (Int32 0x1102) \<and>
      c_equal (h PR_CONVERSATION_TOPIC_A) (Int32 0x0070001E) \<and>
      c_equal (h BOOKMARK_BEGINNING) (Int32 0) \<and>
      c_equal (h TABLE_SORT_CATEG_MAX) (Int32 4) \<and>
      c_equal (cast S32 (h PRIO_NONURGENT)) (Int32 (- 1))"
    by (rule compile_testbuild_ok_iff)
next
  show "compile h testbuild = Build_ok \<or>
        filter (\<lambda>e. \<not> truth (eval h e)) (static_asserts testbuild) \<noteq> [] \<and>
        compile h testbuild =
          Build_failed (filter (\<lambda>e. \<not> truth (eval h e)) (static_asserts testbuild))"
  proof (cases "diagnostics h testbuild = []")
    case True
    then show ?thesis by (simp add: compile_ok_iff_no_diagnostics)
  next
    case False
    then have "compile h testbuild = Build_failed (diagnostics h testbuild)"
      by (rule compile_failed)
    with False show ?thesis by (simp add: diagnostics_filter)
  qed
next
  show "runtime_items testbuild = []"
    by (simp add: runtime_items_def testbuild_def)
qed

theorem build_succeeds_iff_six_equalities_witness:
  "compile sample_header testbuild = Build_ok \<and>
   compile (sample_header (BOOKMARK_BEGINNING := UInt32 1)) testbuild =
     Build_failed [check_BOOKMARK_BEGINNING]"
proof
  show "compile sample_header testbuild = Build_ok"
    using build_succeeds_iff_six_equalities [of sample_header]
    by (simp add: sample_header_def c_equal_def cast_def)
next
  let ?h = "sample_header (BOOKMARK_BEGINNING := UInt32 1)"
  have "compile ?h testbuild \<noteq> Build_ok"
    using build_succeeds_iff_six_equalities [of ?h]
    by (simp add: c_equal_def cast_def)
  moreover have "filter (\<lambda>e. \<not> truth (eval ?h e)) (static_asserts testbuild) =
      [check_BOOKMARK_BEGINNING]"
    by (simp add: static_asserts_testbuild holds_simps sample_header_def c_equal_def cast_def)
  moreover have "compile ?h testbuild = Build_ok \<or>
      filter (\<lambda>e. \<not> truth (eval ?h e)) (static_asserts testbuild) \<noteq> [] \<and>
      compile ?h testbuild =
        Build_failed (filter (\<lambda>e. \<not> truth (eval ?h e)) (static_asserts testbuild))"
    using build_succeeds_iff_six_equalities [of ?h] by (elim conjE)
  ultimately show "compile ?h testbuild = Build_failed [check_BOOKMARK_BEGINNING]"
    by simp
qed


section \<open>The constants under check\<close>

text \<open>
  C2, as the spec puts it: among the checked constants there are two property-tag
  identifiers, which makes seven constants in all. The file checks one property tag,
  \<^verbatim>\<open>PR_CONVERSATION_TOPIC_A\<close>, and six constants in all.
\<close>

theorem two_property_tags_counterexample:
  "count_kind Property_tag testbuild \<noteq> 2
   \<and> length (checked_constants testbuild) \<noteq> 1 + 1 + 2 + 1 + 1 + 1"
  by (simp add: count_kind_def checked_constants_def static_asserts_testbuild
      check_MAPI_E_NOT_FOUND_def check_PT_MV_BINARY_def check_PR_CONVERSATION_TOPIC_A_def
      check_BOOKMARK_BEGINNING_def check_TABLE_SORT_CATEG_MAX_def check_PRIO_NONURGENT_def)

text \<open>
  C2, amended. The file checks exactly six constants, one of each family and one per
  assertion: an error code, a property type, one property tag, a bookmark expected to
  be 0, a table-sort category maximum expected to be 4, and a priority that is cast to
  a signed 32-bit integer and expected to be -1.
\<close>

theorem checked_constants_inventory:
  "checked_constants testbuild =
     [MAPI_E_NOT_FOUND, PT_MV_BINARY, PR_CONVERSATION_TOPIC_A,
      BOOKMARK_BEGINNING, TABLE_SORT_CATEG_MAX, PRIO_NONURGENT]
   \<and> (\<forall>k. count_kind k testbuild = 1)
   \<and> inventory h testbuild =
       [([Error_code], Some (- 2147221233)),
        ([Property_type], Some 4354),
        ([Property_tag], Some 7340062),
        ([Bookmark], Some 0),
        ([Table_sort_category], Some 4),
        ([Priority], Some (- 1))]
   \<and> map_option (eval h) (subject check_PRIO_NONURGENT) = Some (cast S32 (h PRIO_NONURGENT))"
proof (intro conjI)
  show c: "checked_constants testbuild =
     [MAPI_E_NOT_FOUND, PT_MV_BINARY, PR_CONVERSATION_TOPIC_A,
      BOOKMARK_BEGINNING, TABLE_SORT_CATEG_MAX, PRIO_NONURGENT]"
    by (simp add: checked_constants_def static_asserts_testbuild
        check_MAPI_E_NOT_FOUND_def check_PT_MV_BINARY_def check_PR_CONVERSATION_TOPIC_A_def
        check_BOOKMARK_BEGINNING_def check_TABLE_SORT_CATEG_MAX_def check_PRIO_NONURGENT_def)
  show "\<forall>k. count_kind k testbuild = 1"
  proof
    fix k
    show "count_kind k testbuild = 1"
      by (cases k) (simp_all add: count_kind_def c)
  qed
  show "inventory h testbuild =
       [([Error_code], Some (- 2147221233)),
        ([Property_type], Some 4354),
        ([Property_tag], Some 7340062),
        ([Bookmark], Some 0),
        ([Table_sort_category], Some 4),
        ([Priority], Some (- 1))]"
    by (simp add: inventory_def static_asserts_testbuild cast_def c_negate_def
        check_MAPI_E_NOT_FOUND_def check_PT_MV_BINARY_def check_PR_CONVERSATION_TOPIC_A_def
        check_BOOKMARK_BEGINNING_def check_TABLE_SORT_CATEG_MAX_def check_PRIO_NONURGENT_def)
  show "map_option (eval h) (subject check_PRIO_NONURGENT) = Some (cast S32 (h PRIO_NONURGENT))"
    by (simp add: check_PRIO_NONURGENT_def)
qed

text \<open>
  C3. The file holds exactly six assertions, all different. Each compares a named
  constant (possibly under a cast) with a literal value (possibly under a cast or a
  sign). They are checked when the file is built, and they are all there is: every
  item of the file that is not an include is one of them.
\<close>

theorem six_assertions_constant_equals_literal:
  "length (static_asserts testbuild) = 6
   \<and> distinct (static_asserts testbuild)
   \<and> list_all is_check (static_asserts testbuild)
   \<and> filter (\<lambda>d. \<not> is_include d) testbuild = map Static_assert (static_asserts testbuild)
   \<and> runtime_items testbuild = []"
proof (intro conjI)
  show "length (static_asserts testbuild) = 6"
    by (simp add: static_asserts_testbuild)
  show "distinct (static_asserts testbuild)"
    by (simp add: static_asserts_testbuild
        check_MAPI_E_NOT_FOUND_def check_PT_MV_BINARY_def check_PR_CONVERSATION_TOPIC_A_def
        check_BOOKMARK_BEGINNING_def check_TABLE_SORT_CATEG_MAX_def check_PRIO_NONURGENT_def)
  show "list_all is_check (static_asserts testbuild)"
    by (simp add: static_asserts_testbuild
        check_MAPI_E_NOT_FOUND_def check_PT_MV_BINARY_def check_PR_CONVERSATION_TOPIC_A_def
        check_BOOKMARK_BEGINNING_def check_TABLE_SORT_CATEG_MAX_def check_PRIO_NONURGENT_def)
  show "filter (\<lambda>d. \<not> is_include d) testbuild = map Static_assert (static_asserts testbuild)"
    by (simp add: static_asserts_testbuild) (simp add: testbuild_def)
  show "runtime_items testbuild = []"
    by (simp add: runtime_items_def testbuild_def)
qed


section \<open>The values the build pins down\<close>

text \<open>
  C4. When the file builds, \<^verbatim>\<open>MAPI_E_NOT_FOUND\<close> compares equal to
  \<^verbatim>\<open>(HRESULT)0x8004010F\<close>; its 32-bit pattern is 0x8004010F, which read as a signed
  32-bit integer is the negative number -2147221233. If the header declares it at a
  signed 32-bit type, as an \<^verbatim>\<open>HRESULT\<close> is, that number is its value.
\<close>

theorem MAPI_E_NOT_FOUND_negative_status:
  assumes "compile h testbuild = Build_ok"
  shows "c_equal (h MAPI_E_NOT_FOUND) (Int32 0x8004010F)
    \<and> expected h check_MAPI_E_NOT_FOUND = Some (- 2147221233)
    \<and> cast S32 (h MAPI_E_NOT_FOUND) = Int32 0x8004010F
    \<and> value_of (cast S32 (h MAPI_E_NOT_FOUND)) = - 2147221233
    \<and> value_of (cast S32 (h MAPI_E_NOT_FOUND)) < 0
    \<and> (type_of (h MAPI_E_NOT_FOUND) = S32 \<longrightarrow> value_of (h MAPI_E_NOT_FOUND) = - 2147221233)"
proof -
  from assms have eq: "c_equal (h MAPI_E_NOT_FOUND) (Int32 0x8004010F)"
    by (simp add: compile_testbuild_ok_iff)
  then have low: "cast S32 (h MAPI_E_NOT_FOUND) = Int32 0x8004010F"
    by (rule c_equal_Int32_low)
  have ex: "expected h check_MAPI_E_NOT_FOUND = Some (- 2147221233)"
    by (simp add: check_MAPI_E_NOT_FOUND_def cast_def)
  have own: "value_of (h MAPI_E_NOT_FOUND) = - 2147221233"
    if "type_of (h MAPI_E_NOT_FOUND) = S32"
  proof -
    have "cast S32 (h MAPI_E_NOT_FOUND) = h MAPI_E_NOT_FOUND"
      using cast_same [of "h MAPI_E_NOT_FOUND"] that by simp
    with low show ?thesis by simp
  qed
  from eq ex low own show ?thesis by simp
qed

theorem MAPI_E_NOT_FOUND_negative_status_witness:
  "compile (sample_header (MAPI_E_NOT_FOUND := UInt32 0x8004010F)) testbuild = Build_ok
   \<and> value_of (cast S32 (UInt32 0x8004010F)) = - 2147221233
   \<and> value_of (sample_header MAPI_E_NOT_FOUND) = - 2147221233"
proof -
  let ?u = "sample_header (MAPI_E_NOT_FOUND := UInt32 0x8004010F)"
  have u: "compile ?u testbuild = Build_ok"
    by (simp add: compile_testbuild_ok_iff sample_header_def c_equal_def cast_def)
  have s: "compile sample_header testbuild = Build_ok"
    by (rule sample_header_builds)
  show ?thesis
    using u MAPI_E_NOT_FOUND_negative_status [OF u] MAPI_E_NOT_FOUND_negative_status [OF s]
    by (simp add: sample_header_def)
qed

text \<open>
  C5. The last assertion holds exactly when \<^verbatim>\<open>PRIO_NONURGENT\<close>, cast to a signed
  32-bit integer, is -1; so it is -1 whenever the file builds.
\<close>

theorem PRIO_NONURGENT_cast_minus_one:
  "(truth (eval h check_PRIO_NONURGENT) \<longleftrightarrow>
      value_of (eval h (Static_cast int32_t (Name PRIO_NONURGENT))) = - 1)
   \<and> (compile h testbuild = Build_ok \<longrightarrow>
        cast S32 (h PRIO_NONURGENT) = Int32 (- 1) \<and>
        value_of (cast S32 (h PRIO_NONURGENT)) = - 1)"
proof -
  obtain w where w: "cast S32 (h PRIO_NONURGENT) = Int32 w"
    by (simp add: cast_def)
  have m: "sint w = - 1 \<longleftrightarrow> w = - 1"
    using word_eq_iff_signed [where ?'a = int, of w "- 1"] by simp
  have "truth (eval h check_PRIO_NONURGENT) \<longleftrightarrow> cast S32 (h PRIO_NONURGENT) = Int32 (- 1)"
    by (simp add: holds_PRIO_NONURGENT c_equal_def w cast_S32_Int32)
  then have a: "truth (eval h check_PRIO_NONURGENT) \<longleftrightarrow> value_of (cast S32 (h PRIO_NONURGENT)) = - 1"
    using m by (simp add: w)
  have b: "compile h testbuild = Build_ok \<longrightarrow> truth (eval h check_PRIO_NONURGENT)"
    by (simp add: compile_testbuild_ok_iff holds_PRIO_NONURGENT)
  from a b m show ?thesis by (auto simp: w)
qed

theorem PRIO_NONURGENT_cast_minus_one_witness:
  "truth (eval (sample_header (PRIO_NONURGENT := UInt64 0xFFFFFFFFFFFFFFFF)) check_PRIO_NONURGENT)
   \<and> \<not> truth (eval (sample_header (PRIO_NONURGENT := Int32 1)) check_PRIO_NONURGENT)
   \<and> compile sample_header testbuild = Build_ok
   \<and> value_of (cast S32 (sample_header PRIO_NONURGENT)) = - 1"
proof -
  have s: "compile sample_header testbuild = Build_ok"
    by (rule sample_header_builds)
  show ?thesis
    using s
      PRIO_NONURGENT_cast_minus_one [of "sample_header (PRIO_NONURGENT := UInt64 0xFFFFFFFFFFFFFFFF)"]
      PRIO_NONURGENT_cast_minus_one [of "sample_header (PRIO_NONURGENT := Int32 1)"]
      PRIO_NONURGENT_cast_minus_one [of sample_header]
    by (simp add: cast_def)
qed


text \<open>
  C6. The fourth assertion holds exactly when \<^verbatim>\<open>BOOKMARK_BEGINNING\<close> is 0, whatever
  its integer type; so it is 0 whenever the file builds.
\<close>

theorem BOOKMARK_BEGINNING_zero:
  "(truth (eval h check_BOOKMARK_BEGINNING) \<longleftrightarrow> value_of (h BOOKMARK_BEGINNING) = 0)
   \<and> (compile h testbuild = Build_ok \<longrightarrow> value_of (h BOOKMARK_BEGINNING) = 0)"
proof -
  have "c_equal (h BOOKMARK_BEGINNING) (Int32 0) \<longleftrightarrow> value_of (h BOOKMARK_BEGINNING) = 0"
    using c_equal_Int32_nonneg [of 0 "h BOOKMARK_BEGINNING"] by simp
  then show ?thesis
    by (simp add: holds_BOOKMARK_BEGINNING compile_testbuild_ok_iff)
qed

theorem BOOKMARK_BEGINNING_zero_witness:
  "truth (eval sample_header check_BOOKMARK_BEGINNING)
   \<and> \<not> truth (eval (sample_header (BOOKMARK_BEGINNING := Int64 (- 1))) check_BOOKMARK_BEGINNING)
   \<and> compile sample_header testbuild = Build_ok
   \<and> value_of (sample_header BOOKMARK_BEGINNING) = 0"
proof -
  have s: "compile sample_header testbuild = Build_ok"
    by (rule sample_header_builds)
  show ?thesis
    using s BOOKMARK_BEGINNING_zero [of sample_header]
      BOOKMARK_BEGINNING_zero [of "sample_header (BOOKMARK_BEGINNING := Int64 (- 1))"]
    by simp
qed

text \<open>
  C7. The fifth assertion holds exactly when \<^verbatim>\<open>TABLE_SORT_CATEG_MAX\<close> is 4, whatever
  its integer type; so it is 4 whenever the file builds.
\<close>

theorem TABLE_SORT_CATEG_MAX_four:
  "(truth (eval h check_TABLE_SORT_CATEG_MAX) \<longleftrightarrow> value_of (h TABLE_SORT_CATEG_MAX) = 4)
   \<and> (compile h testbuild = Build_ok \<longrightarrow> value_of (h TABLE_SORT_CATEG_MAX) = 4)"
proof -
  have "c_equal (h TABLE_SORT_CATEG_MAX) (Int32 4) \<longleftrightarrow> value_of (h TABLE_SORT_CATEG_MAX) = 4"
    using c_equal_Int32_nonneg [of 4 "h TABLE_SORT_CATEG_MAX"] by simp
  then show ?thesis
    by (simp add: holds_TABLE_SORT_CATEG_MAX compile_testbuild_ok_iff)
qed

theorem TABLE_SORT_CATEG_MAX_four_witness:
  "truth (eval sample_header check_TABLE_SORT_CATEG_MAX)
   \<and> \<not> truth (eval (sample_header (TABLE_SORT_CATEG_MAX := UInt32 5)) check_TABLE_SORT_CATEG_MAX)
   \<and> compile sample_header testbuild = Build_ok
   \<and> value_of (sample_header TABLE_SORT_CATEG_MAX) = 4"
proof -
  have s: "compile sample_header testbuild = Build_ok"
    by (rule sample_header_builds)
  show ?thesis
    using s TABLE_SORT_CATEG_MAX_four [of sample_header]
      TABLE_SORT_CATEG_MAX_four [of "sample_header (TABLE_SORT_CATEG_MAX := UInt32 5)"]
    by simp
qed

text \<open>
  C8. The property type under check is \<^verbatim>\<open>PT_MV_BINARY\<close>. The value expected of it is
  0x1102, which is 4354 and has the bit 0x1000 set; the constant has that value, and
  that bit, whenever the file builds.
\<close>

theorem PT_MV_BINARY_expected_0x1102:
  "names check_PT_MV_BINARY = [PT_MV_BINARY]
   \<and> kind_of PT_MV_BINARY = Property_type
   \<and> (\<exists>v. expected h check_PT_MV_BINARY = Some v \<and> v = 0x1102 \<and> v = 4354 \<and>
          v AND 0x1000 = 0x1000)
   \<and> (compile h testbuild = Build_ok \<longrightarrow>
        value_of (h PT_MV_BINARY) = 4354 \<and> value_of (h PT_MV_BINARY) AND 0x1000 = 0x1000)"
proof -
  have "c_equal (h PT_MV_BINARY) (Int32 0x1102) \<longleftrightarrow> value_of (h PT_MV_BINARY) = 4354"
    using c_equal_Int32_nonneg [of 4354 "h PT_MV_BINARY"] by simp
  then have "compile h testbuild = Build_ok \<longrightarrow> value_of (h PT_MV_BINARY) = 4354"
    by (simp add: compile_testbuild_ok_iff)
  moreover have "(4354 :: int) AND 0x1000 = 0x1000"
    by simp
  ultimately show ?thesis
    by (auto simp: check_PT_MV_BINARY_def)
qed

theorem PT_MV_BINARY_expected_0x1102_witness:
  "expected sample_header check_PT_MV_BINARY = Some 4354
   \<and> compile sample_header testbuild = Build_ok
   \<and> value_of (sample_header PT_MV_BINARY) AND 0x1000 = 0x1000"
proof -
  have s: "compile sample_header testbuild = Build_ok"
    by (rule sample_header_builds)
  show ?thesis
    using s PT_MV_BINARY_expected_0x1102 [of sample_header] by auto
qed

text \<open>
  C9. The property tag under check is \<^verbatim>\<open>PR_CONVERSATION_TOPIC_A\<close>. The value expected
  of it is 0x0070001E: the low 16 bits, the property type, are 0x001E and the high 16
  bits, the property identifier, are 0x0070. The constant has that value whenever the
  file builds.
\<close>

theorem PR_CONVERSATION_TOPIC_A_expected_0x0070001E:
  "names check_PR_CONVERSATION_TOPIC_A = [PR_CONVERSATION_TOPIC_A]
   \<and> kind_of PR_CONVERSATION_TOPIC_A = Property_tag
   \<and> (\<exists>v. expected h check_PR_CONVERSATION_TOPIC_A = Some v \<and> v = 0x0070001E \<and>
          take_bit 16 v = 0x001E \<and> take_bit 16 (drop_bit 16 v) = 0x0070)
   \<and> (compile h testbuild = Build_ok \<longrightarrow>
        value_of (h PR_CONVERSATION_TOPIC_A) = 0x0070001E \<and>
        take_bit 16 (value_of (h PR_CONVERSATION_TOPIC_A)) = 0x001E \<and>
        take_bit 16 (drop_bit 16 (value_of (h PR_CONVERSATION_TOPIC_A))) = 0x0070)"
proof -
  have "c_equal (h PR_CONVERSATION_TOPIC_A) (Int32 0x0070001E) \<longleftrightarrow>
      value_of (h PR_CONVERSATION_TOPIC_A) = 0x0070001E"
    using c_equal_Int32_nonneg [of 7340062 "h PR_CONVERSATION_TOPIC_A"] by simp
  then have "compile h testbuild = Build_ok \<longrightarrow> value_of (h PR_CONVERSATION_TOPIC_A) = 0x0070001E"
    by (simp add: compile_testbuild_ok_iff)
  moreover have "take_bit 16 (0x0070001E :: int) = 0x001E"
    by simp
  moreover have "take_bit 16 (drop_bit 16 (0x0070001E :: int)) = 0x0070"
    by simp
  ultimately show ?thesis
    by (auto simp: check_PR_CONVERSATION_TOPIC_A_def)
qed

theorem PR_CONVERSATION_TOPIC_A_expected_0x0070001E_witness:
  "expected sample_header check_PR_CONVERSATION_TOPIC_A = Some 0x0070001E
   \<and> compile sample_header testbuild = Build_ok
   \<and> take_bit 16 (value_of (sample_header PR_CONVERSATION_TOPIC_A)) = 0x001E
   \<and> take_bit 16 (drop_bit 16 (value_of (sample_header PR_CONVERSATION_TOPIC_A))) = 0x0070"
proof -
  have s: "compile sample_header testbuild = Build_ok"
    by (rule sample_header_builds)
  show ?thesis
    using s PR_CONVERSATION_TOPIC_A_expected_0x0070001E [of sample_header] by auto
qed

text \<open>
  C10. The value expected of the error code is written as the literal 0x8004010F, an
  unsigned 32-bit number, and cast to \<^verbatim>\<open>HRESULT\<close>. Modulo \<open>2 ^ 32\<close> it is 0x8004010F:
  bit 31 is set, bits 16 to 26 hold 0x0004 and the low 16 bits hold 0x010F.
\<close>

theorem expected_error_code_fields:
  "eval h (Literal Hexadecimal 0x8004010F) = UInt32 0x8004010F
   \<and> (\<exists>e. expected h check_MAPI_E_NOT_FOUND = Some e \<and>
          e mod 2 ^ 32 = 0x8004010F \<and>
          bit (e mod 2 ^ 32) 31 \<and>
          take_bit 11 (drop_bit 16 (e mod 2 ^ 32)) = 0x0004 \<and>
          take_bit 16 (e mod 2 ^ 32) = 0x010F)"
proof
  show "eval h (Literal Hexadecimal 0x8004010F) = UInt32 0x8004010F"
    by simp
next
  have e: "expected h check_MAPI_E_NOT_FOUND = Some (- 2147221233)"
    by (simp add: check_MAPI_E_NOT_FOUND_def cast_def)
  have m: "(- 2147221233 :: int) mod 2 ^ 32 = 0x8004010F"
    by simp
  have "bit (0x8004010F :: int) 31"
    by simp
  moreover have "take_bit 11 (drop_bit 16 (0x8004010F :: int)) = 0x0004"
    by simp
  moreover have "take_bit 16 (0x8004010F :: int) = 0x010F"
    by simp
  ultimately show "\<exists>e. expected h check_MAPI_E_NOT_FOUND = Some e \<and>
          e mod 2 ^ 32 = 0x8004010F \<and>
          bit (e mod 2 ^ 32) 31 \<and>
          take_bit 11 (drop_bit 16 (e mod 2 ^ 32)) = 0x0004 \<and>
          take_bit 16 (e mod 2 ^ 32) = 0x010F"
    using e m by simp
qed

end
